theory Spec2Isabelle
  imports Main "HOL-Library.Sublist"
begin

section \<open>The configuration read by the factory\<close>

text \<open>
  \<^verbatim>\<open>OfflineRecognizerImpl::Create\<close> (offline-recognizer-impl.cc) reads two fields of its
  argument: \<^verbatim>\<open>config.model_config.transducer.encoder_filename\<close> and
  \<^verbatim>\<open>config.model_config.paraformer.model\<close>. The structs are declared in headers outside
  this slice, so each record below lists the field the factory reads and is used through
  its extensible scheme: whatever other fields a struct has ride along in the record's
  extension and are never inspected here.
\<close>

record OfflineTransducerModelConfig =
  encoder_filename :: string

record OfflineParaformerModelConfig =
  model :: string

record ('t, 'p) OfflineModelConfig =
  transducer :: "'t OfflineTransducerModelConfig_scheme"
  paraformer :: "'p OfflineParaformerModelConfig_scheme"

record ('t, 'p, 'm) OfflineRecognizerConfig =
  model_config :: "('t, 'p, 'm) OfflineModelConfig_scheme"

section \<open>Recognizers, process termination, observable events\<close>

text \<open>
  The two concrete classes are defined elsewhere; the factory only calls their
  constructors with \<^verbatim>\<open>config\<close>. A recognizer value records which constructor ran and the
  argument it was given. A \<^verbatim>\<open>std::unique_ptr\<close> is an option: \<open>None\<close> is the null pointer,
  \<^verbatim>\<open>std::make_unique\<close> yields \<open>Some\<close>.
\<close>

datatype 'c OfflineRecognizerImpl =
    OfflineRecognizerTransducerImpl 'c
  | OfflineRecognizerParaformerImpl 'c

text \<open>
  The ways a call can end without returning: \<^verbatim>\<open>exit(status)\<close>, or an exception of the
  inference library that nothing in the factory catches.
\<close>

datatype error = Exit int | OrtException

text \<open>
  What a run does to the outside world, in order: a file read, the construction of an
  inference session over a buffer, a line sent to \<^verbatim>\<open>SHERPA_ONNX_LOGE\<close> (the format
  string and the arguments as passed; the macro's rendering is not part of this slice).
\<close>

datatype event =
    ReadFileCall string
  | SessionCtor string
  | LOGE string "string list"

text \<open>
  The collaborators the factory calls and that live outside this slice:
  \<^verbatim>\<open>ReadFile\<close> (onnx-utils.h), the \<^verbatim>\<open>Ort::Session\<close> constructor (\<open>None\<close> when it
  throws), \<^verbatim>\<open>GetModelMetadata\<close>, and the macro \<^verbatim>\<open>SHERPA_ONNX_READ_META_DATA_STR\<close>
  (macros.h), which either assigns a string to its destination or ends the process.
\<close>

record ('s, 'md) services =
  ReadFile :: "string \<Rightarrow> string"
  Session :: "string \<Rightarrow> 's option"
  GetModelMetadata :: "'s \<Rightarrow> 'md"
  READ_META_DATA_STR :: "'md \<Rightarrow> string \<Rightarrow> error + string"

section \<open>The factory\<close>

text \<open>The format string of the last \<^verbatim>\<open>SHERPA_ONNX_LOGE\<close> call (lines 53-58).\<close>

definition unsupported_model_type_fmt :: string where
  "unsupported_model_type_fmt =
     [CHR 0x0A] @ ''Unsupported model_type: %s'' @ [CHR 0x0A] @
     ''We support only the following model types at present: '' @ [CHR 0x0A] @
     '' - transducer models from icefall'' @ [CHR 0x0A] @
     '' - Paraformer models from FunASR'' @ [CHR 0x0A]"

text \<open>
  Lines 23-31: the value given to \<^verbatim>\<open>model_filename\<close>, or \<open>None\<close> on the branch that
  logs and exits.
\<close>

definition model_filename ::
  "('t, 'p, 'm, 'r) OfflineRecognizerConfig_scheme \<Rightarrow> string option" where
  "model_filename config =
     (if encoder_filename (transducer (model_config config)) \<noteq> [] then
        Some (encoder_filename (transducer (model_config config)))
      else if model (paraformer (model_config config)) \<noteq> [] then
        Some (model (paraformer (model_config config)))
      else None)"

text \<open>
  Lines 20-43 of \<^verbatim>\<open>Create\<close>: choose \<^verbatim>\<open>model_filename\<close>, read the file, build the
  session, take its metadata and read the key \<^verbatim>\<open>"model_type"\<close>. The result is the
  string left in \<^verbatim>\<open>model_type\<close>, or the way the process ended, with the events so far.
  Lines 20, 22 and 40 build the library's environment, an empty set of session options
  and the default allocator; these objects touch no file and no model, are handed to the
  session constructor and to the macro, and leave no event. Whatever the macro itself may
  print before ending the process is outside this slice and is not recorded either.
\<close>

definition read_model_type ::
  "('s, 'md) services \<Rightarrow> ('t, 'p, 'm, 'r) OfflineRecognizerConfig_scheme
     \<Rightarrow> (error + string) \<times> event list" where
  "read_model_type sv config =
     (case model_filename config of
        None \<Rightarrow> (Inl (Exit (- 1)), [LOGE ''Please provide a model'' []])
      | Some fn \<Rightarrow>
          (let buf = ReadFile sv fn in
           case Session sv buf of
             None \<Rightarrow> (Inl OrtException, [ReadFileCall fn, SessionCtor buf])
           | Some encoder_sess \<Rightarrow>
               (let meta_data = GetModelMetadata sv encoder_sess in
                case READ_META_DATA_STR sv meta_data ''model_type'' of
                  Inl e \<Rightarrow> (Inl e, [ReadFileCall fn, SessionCtor buf])
                | Inr model_type \<Rightarrow> (Inr model_type, [ReadFileCall fn, SessionCtor buf]))))"

text \<open>The whole of \<^verbatim>\<open>Create\<close>: lines 45-60 follow the steps above.\<close>

definition Create ::
  "('s, 'md) services \<Rightarrow> ('t, 'p, 'm, 'r) OfflineRecognizerConfig_scheme
     \<Rightarrow> (error + ('t, 'p, 'm, 'r) OfflineRecognizerConfig_scheme OfflineRecognizerImpl option)
         \<times> event list" where
  "Create sv config =
     (case read_model_type sv config of
        (Inl e, evs) \<Rightarrow> (Inl e, evs)
      | (Inr model_type, evs) \<Rightarrow>
          if model_type = ''conformer'' \<or> model_type = ''zipformer'' then
            (Inr (Some (OfflineRecognizerTransducerImpl config)), evs)
          else if model_type = ''paraformer'' then
            (Inr (Some (OfflineRecognizerParaformerImpl config)), evs)
          else
            (Inl (Exit (- 1)), evs @ [LOGE unsupported_model_type_fmt [model_type]]))"

section \<open>The classification decided by lines 45-51\<close>

text \<open>
  The three ways the comparisons of lines 45-51 can go: the first test holds, the second
  holds, or neither does.
\<close>

datatype ModelFamily = Transducer | SinglePassNonAutoregressive | Unknown

definition classify :: "string \<Rightarrow> ModelFamily" where
  "classify model_type =
     (if model_type = ''conformer'' \<or> model_type = ''zipformer'' then Transducer
      else if model_type = ''paraformer'' then SinglePassNonAutoregressive
      else Unknown)"

text \<open>The family of what a run of \<^verbatim>\<open>Create\<close> hands back; \<open>Unknown\<close> when it hands back nothing.\<close>

fun family_of :: "error + 'c OfflineRecognizerImpl option \<Rightarrow> ModelFamily" where
  "family_of (Inr (Some (OfflineRecognizerTransducerImpl _))) = Transducer"
| "family_of (Inr (Some (OfflineRecognizerParaformerImpl _))) = SinglePassNonAutoregressive"
| "family_of _ = Unknown"

section \<open>The metadata macro, as the specification describes it\<close>

text \<open>
  Modelled from the spec: the body of \<^verbatim>\<open>SHERPA_ONNX_READ_META_DATA_STR\<close> is in macros.h,
  which is not part of this slice. The specification (4.1) gives the metadata as a table
  from attribute names to string values and the read as yielding "a single string value
  for the requested key (empty string if the key is absent)", never an error of its own.
\<close>

definition READ_META_DATA_STR_spec :: "(string \<rightharpoonup> string) \<Rightarrow> string \<Rightarrow> error + string" where
  "READ_META_DATA_STR_spec meta_data src_key =
     Inr (case meta_data src_key of None \<Rightarrow> [] | Some v \<Rightarrow> v)"

section \<open>Batched decoding, as the specification describes it\<close>

text \<open>
  Modelled from the spec: \<^verbatim>\<open>OfflineStream\<close> (offline-stream.h) is not part of this slice.
  The specification (3) describes a stream as per-utterance mutable state: the buffered
  features and the decode result, absent until the stream has been decoded.
\<close>

record ('f, 'r) OfflineStream =
  features :: 'f
  result :: "'r option"

text \<open>
  \<^verbatim>\<open>DecodeStreams(OfflineStream **ss, int32_t n)\<close> receives an array of pointers. A pointer
  is an address; the store maps each address to the stream that lives there.
\<close>

type_synonym ('f, 'r) store = "nat \<Rightarrow> ('f, 'r) OfflineStream"

text \<open>
  Modelled from the spec: the loop that writes the results of a batch back, result number
  \<open>i\<close> into the stream the \<open>i\<close>-th pointer refers to ("writes decode results into each
  Stream in place", 4.4).
\<close>

fun write_results ::
  "(nat \<Rightarrow> 'r) \<Rightarrow> nat \<Rightarrow> nat list \<Rightarrow> ('f, 'r) store \<Rightarrow> ('f, 'r) store" where
  "write_results res i [] h = h"
| "write_results res i (p # ps) h =
     write_results res (Suc i) ps (h(p := (h p)\<lparr>result := Some (res i)\<rparr>))"

text \<open>
  Modelled from the spec: \<^verbatim>\<open>DecodeStreams\<close> is pure virtual in offline-recognizer-impl.h
  and its overriders are not part of this slice. Following 4.4, it takes the first \<open>n\<close>
  entries of the buffer, runs the family's decoding algorithm over their features as one
  batch (\<open>decode fs i\<close> is the result for entry \<open>i\<close> of a batch with features \<open>fs\<close>; the
  algorithm itself is a parameter), and writes each result into its stream. The
  specification leaves a count beyond the buffer's length undefined (9): there the
  function has no normal return, \<open>None\<close>. A count that is not positive selects no entry.
\<close>

definition DecodeStreams ::
  "('f list \<Rightarrow> nat \<Rightarrow> 'r) \<Rightarrow> nat list \<Rightarrow> int \<Rightarrow> ('f, 'r) store \<Rightarrow> ('f, 'r) store option" where
  "DecodeStreams decode ss n h =
     (if int (length ss) < n then None
      else
        (let batch = take (nat n) ss;
             fs = map (\<lambda>p. features (h p)) batch
         in Some (write_results (decode fs) 0 batch h)))"

section \<open>Sample inputs\<close>

text \<open>
  A configuration with the two paths given, and collaborators for which every file holds
  a well-formed model whose metadata table has the one entry \<open>model_type\<close>; this sample
  macro ends the process when the key is absent.
\<close>

definition sample_config :: "string \<Rightarrow> string \<Rightarrow> (unit, unit, unit) OfflineRecognizerConfig" where
  "sample_config enc par =
     \<lparr>model_config = \<lparr>transducer = \<lparr>encoder_filename = enc\<rparr>, paraformer = \<lparr>model = par\<rparr>\<rparr>\<rparr>"

definition sample_services :: "string \<Rightarrow> (unit, string \<rightharpoonup> string) services" where
  "sample_services mt =
     \<lparr>ReadFile = (\<lambda>fn. ''onnx:'' @ fn),
      Session = (\<lambda>buf. Some ()),
      GetModelMetadata = (\<lambda>s. [''model_type'' \<mapsto> mt]),
      READ_META_DATA_STR =
        (\<lambda>md key. case md key of None \<Rightarrow> Inl (Exit (- 1)) | Some v \<Rightarrow> Inr v)\<rparr>"



section \<open>Facts about the steps of the factory\<close>

lemma model_filename_None:
  "model_filename config = None \<longleftrightarrow>
     encoder_filename (transducer (model_config config)) = []
     \<and> model (paraformer (model_config config)) = []"
  by (simp add: model_filename_def)

lemma read_model_type_events:
  "model_filename config = Some fn \<Longrightarrow>
     snd (read_model_type sv config) = [ReadFileCall fn, SessionCtor (ReadFile sv fn)]"
  by (simp add: read_model_type_def Let_def split: option.splits sum.splits)

lemma read_model_type_Inr:
  "read_model_type sv config = (Inr s, evs) \<Longrightarrow>
     \<exists>fn sess. model_filename config = Some fn
       \<and> Session sv (ReadFile sv fn) = Some sess
       \<and> READ_META_DATA_STR sv (GetModelMetadata sv sess) ''model_type'' = Inr s
       \<and> evs = [ReadFileCall fn, SessionCtor (ReadFile sv fn)]"
  by (auto simp: read_model_type_def Let_def split: option.splits sum.splits)

lemma read_model_type_reached:
  "model_filename config = Some fn \<Longrightarrow> Session sv (ReadFile sv fn) = Some sess \<Longrightarrow>
   READ_META_DATA_STR sv (GetModelMetadata sv sess) ''model_type'' = Inr s \<Longrightarrow>
     read_model_type sv config = (Inr s, [ReadFileCall fn, SessionCtor (ReadFile sv fn)])"
  by (simp add: read_model_type_def)

lemma Create_dispatch:
  "read_model_type sv config = (Inr s, evs) \<Longrightarrow>
     Create sv config =
       (case classify s of
          Transducer \<Rightarrow> (Inr (Some (OfflineRecognizerTransducerImpl config)), evs)
        | SinglePassNonAutoregressive \<Rightarrow>
            (Inr (Some (OfflineRecognizerParaformerImpl config)), evs)
        | Unknown \<Rightarrow> (Inl (Exit (- 1)), evs @ [LOGE unsupported_model_type_fmt [s]]))"
  by (simp add: Create_def classify_def)

lemma Create_stopped:
  "read_model_type sv config = (Inl e, evs) \<Longrightarrow> Create sv config = (Inl e, evs)"
  by (simp add: Create_def)

lemma sample_read_model_type:
  "enc \<noteq> [] \<Longrightarrow>
     read_model_type (sample_services mt) (sample_config enc par) =
       (Inr mt, [ReadFileCall enc, SessionCtor (''onnx:'' @ enc)])"
  by (simp add: read_model_type_def model_filename_def sample_services_def sample_config_def)

section \<open>Classification\<close>

text \<open>
  C1. In every run of \<open>Create\<close> that reads a string from the metadata, the family of the
  outcome is fixed by an exact, case-sensitive comparison of that string: the Transducer
  recognizer is built for \<open>conformer\<close> and \<open>zipformer\<close> and for no other string, the
  Paraformer recognizer for \<open>paraformer\<close> and for no other string, and every other string
  ends on the unsupported branch; among them the empty string and spellings that differ
  in case or in surrounding white space. The helper \<open>classify\<close> names the same decision.
\<close>

theorem Create_classifies_exactly:
  assumes "read_model_type sv config = (Inr s, evs)"
  shows "(fst (Create sv config) = Inr (Some (OfflineRecognizerTransducerImpl config))
            \<longleftrightarrow> s = ''conformer'' \<or> s = ''zipformer'')
         \<and> (fst (Create sv config) = Inr (Some (OfflineRecognizerParaformerImpl config))
            \<longleftrightarrow> s = ''paraformer'')
         \<and> (fst (Create sv config) = Inl (Exit (- 1))
            \<longleftrightarrow> s \<notin> {''conformer'', ''zipformer'', ''paraformer''})
         \<and> (family_of (fst (Create sv config)) = Transducer
            \<longleftrightarrow> s = ''conformer'' \<or> s = ''zipformer'')
         \<and> (family_of (fst (Create sv config)) = SinglePassNonAutoregressive
            \<longleftrightarrow> s = ''paraformer'')
         \<and> (family_of (fst (Create sv config)) = Unknown
            \<longleftrightarrow> s \<notin> {''conformer'', ''zipformer'', ''paraformer''})
         \<and> family_of (fst (Create sv config)) = classify s
         \<and> (s \<in> {'''', ''Conformer'', ''ZIPFORMER'', ''Paraformer'', '' conformer'',
                  ''paraformer '', ''zipformer'' @ [CHR 0x0A]}
            \<longrightarrow> fst (Create sv config) = Inl (Exit (- 1))
                \<and> family_of (fst (Create sv config)) = Unknown)"
proof -
  consider (t) "s = ''conformer'' \<or> s = ''zipformer''"
    | (p) "s = ''paraformer''"
    | (u) "s \<noteq> ''conformer''" "s \<noteq> ''zipformer''" "s \<noteq> ''paraformer''"
    by blast
  then show ?thesis
  proof cases
    case t
    then have "Create sv config = (Inr (Some (OfflineRecognizerTransducerImpl config)), evs)"
      using assms by (auto simp: Create_def)
    with t show ?thesis by (auto simp: classify_def)
  next
    case p
    then have "Create sv config = (Inr (Some (OfflineRecognizerParaformerImpl config)), evs)"
      using assms by (simp add: Create_def)
    with p show ?thesis by (simp add: classify_def)
  next
    case u
    then have "Create sv config =
        (Inl (Exit (- 1)), evs @ [LOGE unsupported_model_type_fmt [s]])"
      using assms by (simp add: Create_def)
    with u show ?thesis by (simp add: classify_def)
  qed
qed

theorem Create_classifies_exactly_witness:
  "fst (Create (sample_services ''conformer'') (sample_config ''enc.bin'' []))
     = Inr (Some (OfflineRecognizerTransducerImpl (sample_config ''enc.bin'' [])))
   \<and> fst (Create (sample_services ''zipformer'') (sample_config ''enc.bin'' []))
     = Inr (Some (OfflineRecognizerTransducerImpl (sample_config ''enc.bin'' [])))
   \<and> fst (Create (sample_services ''paraformer'') (sample_config ''enc.bin'' []))
     = Inr (Some (OfflineRecognizerParaformerImpl (sample_config ''enc.bin'' [])))
   \<and> fst (Create (sample_services ''Conformer'') (sample_config ''enc.bin'' []))
     = Inl (Exit (- 1))
   \<and> fst (Create (sample_services '' conformer'') (sample_config ''enc.bin'' []))
     = Inl (Exit (- 1))
   \<and> fst (Create (sample_services '''') (sample_config ''enc.bin'' []))
     = Inl (Exit (- 1))"
proof -
  have rm: "read_model_type (sample_services mt) (sample_config ''enc.bin'' [])
      = (Inr mt, [ReadFileCall ''enc.bin'', SessionCtor (''onnx:'' @ ''enc.bin'')])" for mt
    by (rule sample_read_model_type) simp
  from Create_classifies_exactly [OF rm [of "''conformer''"]]
  have w1: "fst (Create (sample_services ''conformer'') (sample_config ''enc.bin'' []))
     = Inr (Some (OfflineRecognizerTransducerImpl (sample_config ''enc.bin'' [])))"
    by simp
  from Create_classifies_exactly [OF rm [of "''zipformer''"]]
  have w2: "fst (Create (sample_services ''zipformer'') (sample_config ''enc.bin'' []))
     = Inr (Some (OfflineRecognizerTransducerImpl (sample_config ''enc.bin'' [])))"
    by simp
  from Create_classifies_exactly [OF rm [of "''paraformer''"]]
  have w3: "fst (Create (sample_services ''paraformer'') (sample_config ''enc.bin'' []))
     = Inr (Some (OfflineRecognizerParaformerImpl (sample_config ''enc.bin'' [])))"
    by simp
  from Create_classifies_exactly [OF rm [of "''Conformer''"]]
  have w4: "fst (Create (sample_services ''Conformer'') (sample_config ''enc.bin'' []))
     = Inl (Exit (- 1))"
    by simp
  from Create_classifies_exactly [OF rm [of "'' conformer''"]]
  have w5: "fst (Create (sample_services '' conformer'') (sample_config ''enc.bin'' []))
     = Inl (Exit (- 1))"
    by simp
  from Create_classifies_exactly [OF rm [of "''''"]]
  have w6: "fst (Create (sample_services '''') (sample_config ''enc.bin'' []))
     = Inl (Exit (- 1))"
    by simp
  from w1 w2 w3 w4 w5 w6 show ?thesis by simp
qed

section \<open>Choice of the primary model path\<close>

lemma Create_events:
  assumes "model_filename config = Some fn"
  shows "\<exists>rest. snd (Create sv config) = [ReadFileCall fn, SessionCtor (ReadFile sv fn)] @ rest
           \<and> (rest = [] \<or> (\<exists>s. rest = [LOGE unsupported_model_type_fmt [s]]))"
proof -
  obtain r evs where rm: "read_model_type sv config = (r, evs)"
    by (cases "read_model_type sv config")
  have evs: "evs = [ReadFileCall fn, SessionCtor (ReadFile sv fn)]"
    using read_model_type_events [OF assms, of sv] rm by simp
  show ?thesis
  proof (cases r)
    case (Inl e)
    then show ?thesis using Create_stopped [of sv config e evs] rm evs by simp
  next
    case (Inr s)
    then show ?thesis
      using Create_dispatch [of sv config s evs] rm evs
      by (cases "classify s") simp_all
  qed
qed

text \<open>
  C2. For every configuration the primary model path is the first non-empty one in the
  order transducer encoder path, paraformer model path. Whenever the encoder path is
  non-empty (so also when both are given) it is the path chosen, and it is the file the
  run reads and builds the introspection session from; no other file is read.
\<close>

theorem model_filename_priority:
  "model_filename config =
     find (\<lambda>p. p \<noteq> [])
       [encoder_filename (transducer (model_config config)),
        model (paraformer (model_config config))]
   \<and> (encoder_filename (transducer (model_config config)) \<noteq> [] \<longrightarrow>
        model_filename config = Some (encoder_filename (transducer (model_config config))))
   \<and> (\<forall>fn. model_filename config = Some fn \<longrightarrow>
        fn \<noteq> []
        \<and> take 2 (snd (Create sv config)) = [ReadFileCall fn, SessionCtor (ReadFile sv fn)]
        \<and> (\<forall>f. ReadFileCall f \<in> set (snd (Create sv config)) \<longleftrightarrow> f = fn))"
proof (intro conjI allI impI)
  show "model_filename config =
     find (\<lambda>p. p \<noteq> [])
       [encoder_filename (transducer (model_config config)),
        model (paraformer (model_config config))]"
    by (simp add: model_filename_def)
next
  assume "encoder_filename (transducer (model_config config)) \<noteq> []"
  then show "model_filename config = Some (encoder_filename (transducer (model_config config)))"
    by (simp add: model_filename_def)
next
  fix fn assume "model_filename config = Some fn"
  then show "fn \<noteq> []"
    by (auto simp: model_filename_def split: if_splits)
next
  fix fn assume "model_filename config = Some fn"
  from Create_events [OF this, of sv]
  show "take 2 (snd (Create sv config)) = [ReadFileCall fn, SessionCtor (ReadFile sv fn)]"
    by auto
next
  fix fn f assume "model_filename config = Some fn"
  from Create_events [OF this, of sv]
  show "ReadFileCall f \<in> set (snd (Create sv config)) \<longleftrightarrow> f = fn"
    by auto
qed

theorem model_filename_priority_witness:
  "model_filename (sample_config ''enc.bin'' ''model.bin'') = Some ''enc.bin''
   \<and> take 2 (snd (Create (sample_services ''zipformer'') (sample_config ''enc.bin'' ''model.bin'')))
       = [ReadFileCall ''enc.bin'', SessionCtor ''onnx:enc.bin'']
   \<and> ReadFileCall ''model.bin''
       \<notin> set (snd (Create (sample_services ''zipformer'') (sample_config ''enc.bin'' ''model.bin'')))"
proof -
  have sel: "model_filename (sample_config ''enc.bin'' ''model.bin'') = Some ''enc.bin''"
    by (simp add: model_filename_def sample_config_def)
  have rd: "ReadFile (sample_services ''zipformer'') ''enc.bin'' = ''onnx:enc.bin''"
    by (simp add: sample_services_def)
  show ?thesis
    using model_filename_priority
      [of "sample_config ''enc.bin'' ''model.bin''" "sample_services ''zipformer''"] sel rd
    by simp
qed

section \<open>No model given\<close>

text \<open>
  C3. When the transducer encoder path and the paraformer model path are both empty, the
  run logs "Please provide a model" and ends with \<open>exit(-1)\<close>; that log line is its only
  event, so no file was read and no session was built.
\<close>

theorem Create_no_model:
  assumes "encoder_filename (transducer (model_config config)) = []"
    and "model (paraformer (model_config config)) = []"
  shows "Create sv config = (Inl (Exit (- 1)), [LOGE ''Please provide a model'' []])
         \<and> (\<forall>f. ReadFileCall f \<notin> set (snd (Create sv config)))
         \<and> (\<forall>b. SessionCtor b \<notin> set (snd (Create sv config)))"
proof -
  have "model_filename config = None"
    using assms by (simp add: model_filename_None)
  then have "read_model_type sv config = (Inl (Exit (- 1)), [LOGE ''Please provide a model'' []])"
    by (simp add: read_model_type_def)
  then have "Create sv config = (Inl (Exit (- 1)), [LOGE ''Please provide a model'' []])"
    by (rule Create_stopped)
  then show ?thesis by simp
qed

theorem Create_no_model_witness:
  "Create (sample_services ''zipformer'') (sample_config [] [])
     = (Inl (Exit (- 1)), [LOGE ''Please provide a model'' []])"
proof -
  have "encoder_filename (transducer (model_config (sample_config [] []))) = []"
    and "model (paraformer (model_config (sample_config [] []))) = []"
    by (simp_all add: sample_config_def)
  from Create_no_model [OF this, of "sample_services ''zipformer''"]
  show ?thesis by simp
qed

section \<open>Unsupported model type\<close>

lemma fmt_names_families:
  "sublist ''Unsupported model_type: %s'' unsupported_model_type_fmt"
  "sublist ''transducer models from icefall'' unsupported_model_type_fmt"
  "sublist ''Paraformer models from FunASR'' unsupported_model_type_fmt"
proof -
  have "unsupported_model_type_fmt =
      [CHR 0x0A] @ ''Unsupported model_type: %s'' @
      ([CHR 0x0A] @ ''We support only the following model types at present: '' @ [CHR 0x0A]
        @ '' - transducer models from icefall'' @ [CHR 0x0A]
        @ '' - Paraformer models from FunASR'' @ [CHR 0x0A])"
    by (simp add: unsupported_model_type_fmt_def)
  then show "sublist ''Unsupported model_type: %s'' unsupported_model_type_fmt"
    unfolding sublist_def by blast
  have "unsupported_model_type_fmt =
      ([CHR 0x0A] @ ''Unsupported model_type: %s'' @ [CHR 0x0A]
        @ ''We support only the following model types at present: '' @ [CHR 0x0A] @ '' - '')
      @ ''transducer models from icefall'' @
      ([CHR 0x0A] @ '' - Paraformer models from FunASR'' @ [CHR 0x0A])"
    by (simp add: unsupported_model_type_fmt_def)
  then show "sublist ''transducer models from icefall'' unsupported_model_type_fmt"
    unfolding sublist_def by blast
  have "unsupported_model_type_fmt =
      ([CHR 0x0A] @ ''Unsupported model_type: %s'' @ [CHR 0x0A]
        @ ''We support only the following model types at present: '' @ [CHR 0x0A]
        @ '' - transducer models from icefall'' @ [CHR 0x0A] @ '' - '')
      @ ''Paraformer models from FunASR'' @ [CHR 0x0A]"
    by (simp add: unsupported_model_type_fmt_def)
  then show "sublist ''Paraformer models from FunASR'' unsupported_model_type_fmt"
    unfolding sublist_def by blast
qed

text \<open>
  C4. When the string read from the metadata classifies as Unknown, the run ends with
  \<open>exit(-1)\<close> and returns no recognizer of any family. Its last event is the log call
  whose argument is the unrecognized string and whose format has the placeholder for it
  after "Unsupported model_type:" and lists the two supported kinds of model.
\<close>

theorem Create_unsupported:
  assumes "read_model_type sv config = (Inr s, evs)" and "classify s = Unknown"
  shows "Create sv config = (Inl (Exit (- 1)), evs @ [LOGE unsupported_model_type_fmt [s]])
         \<and> (\<forall>r. fst (Create sv config) \<noteq> Inr r)
         \<and> family_of (fst (Create sv config)) = Unknown
         \<and> sublist ''Unsupported model_type: %s'' unsupported_model_type_fmt
         \<and> sublist ''transducer models from icefall'' unsupported_model_type_fmt
         \<and> sublist ''Paraformer models from FunASR'' unsupported_model_type_fmt"
  using Create_dispatch [OF assms(1)] assms(2) fmt_names_families by simp

theorem Create_unsupported_witness:
  "Create (sample_services ''whisper'') (sample_config ''enc.bin'' [])
     = (Inl (Exit (- 1)),
        [ReadFileCall ''enc.bin'', SessionCtor ''onnx:enc.bin'',
         LOGE unsupported_model_type_fmt [''whisper'']])"
proof -
  have rm: "read_model_type (sample_services ''whisper'') (sample_config ''enc.bin'' [])
      = (Inr ''whisper'', [ReadFileCall ''enc.bin'', SessionCtor (''onnx:'' @ ''enc.bin'')])"
    by (rule sample_read_model_type) simp
  have un: "classify ''whisper'' = Unknown"
    by (simp add: classify_def)
  from Create_unsupported [OF rm un] show ?thesis by simp
qed

section \<open>Dispatch to the concrete recognizer\<close>

text \<open>
  C5. When the string read from the metadata classifies as a known family, \<open>Create\<close>
  returns a recognizer built by that family's constructor, and the constructor's argument
  is the configuration \<open>Create\<close> was called with, whole and unchanged.
\<close>

theorem Create_constructs:
  assumes "read_model_type sv config = (Inr s, evs)"
  shows "(classify s = Transducer \<longrightarrow>
            Create sv config = (Inr (Some (OfflineRecognizerTransducerImpl config)), evs))
         \<and> (classify s = SinglePassNonAutoregressive \<longrightarrow>
            Create sv config = (Inr (Some (OfflineRecognizerParaformerImpl config)), evs))"
  using Create_dispatch [OF assms] by simp

theorem Create_constructs_witness:
  "Create (sample_services ''zipformer'') (sample_config ''enc.bin'' [])
     = (Inr (Some (OfflineRecognizerTransducerImpl (sample_config ''enc.bin'' []))),
        [ReadFileCall ''enc.bin'', SessionCtor ''onnx:enc.bin''])
   \<and> Create (sample_services ''paraformer'') (sample_config [] ''model.bin'')
     = (Inr (Some (OfflineRecognizerParaformerImpl (sample_config [] ''model.bin''))),
        [ReadFileCall ''model.bin'', SessionCtor ''onnx:model.bin''])"
proof -
  have rm1: "read_model_type (sample_services ''zipformer'') (sample_config ''enc.bin'' [])
      = (Inr ''zipformer'', [ReadFileCall ''enc.bin'', SessionCtor (''onnx:'' @ ''enc.bin'')])"
    by (rule sample_read_model_type) simp
  have rm2: "read_model_type (sample_services ''paraformer'') (sample_config [] ''model.bin'')
      = (Inr ''paraformer'', [ReadFileCall ''model.bin'', SessionCtor ''onnx:model.bin''])"
    by (simp add: read_model_type_def model_filename_def sample_services_def sample_config_def)
  have c1: "classify ''zipformer'' = Transducer"
    and c2: "classify ''paraformer'' = SinglePassNonAutoregressive"
    by (simp_all add: classify_def)
  from Create_constructs [OF rm1] Create_constructs [OF rm2] c1 c2
  show ?thesis by simp
qed

section \<open>An absent metadata key\<close>

text \<open>
  C6. With the metadata read as the specification describes it, a metadata table without
  the key \<open>model_type\<close> yields the empty string and no error of the read itself; the
  empty string classifies as Unknown, and the run ends on the unsupported-model-type
  branch, whose log call has the empty string as its argument.
\<close>

theorem absent_model_type_is_unknown:
  assumes "READ_META_DATA_STR sv = READ_META_DATA_STR_spec"
    and "model_filename config = Some fn"
    and "Session sv (ReadFile sv fn) = Some sess"
    and "GetModelMetadata sv sess ''model_type'' = None"
  shows "READ_META_DATA_STR_spec (GetModelMetadata sv sess) ''model_type'' = Inr []
         \<and> read_model_type sv config = (Inr [], [ReadFileCall fn, SessionCtor (ReadFile sv fn)])
         \<and> classify [] = Unknown
         \<and> Create sv config =
             (Inl (Exit (- 1)),
              [ReadFileCall fn, SessionCtor (ReadFile sv fn),
               LOGE unsupported_model_type_fmt [[]]])"
proof -
  have rd: "READ_META_DATA_STR_spec (GetModelMetadata sv sess) ''model_type'' = Inr []"
    using assms(4) by (simp add: READ_META_DATA_STR_spec_def)
  then have "READ_META_DATA_STR sv (GetModelMetadata sv sess) ''model_type'' = Inr []"
    using assms(1) by simp
  from read_model_type_reached [OF assms(2) assms(3) this]
  have rm: "read_model_type sv config = (Inr [], [ReadFileCall fn, SessionCtor (ReadFile sv fn)])" .
  have un: "classify [] = Unknown"
    by (simp add: classify_def)
  from Create_dispatch [OF rm] un rd rm show ?thesis by simp
qed

theorem absent_model_type_is_unknown_witness:
  "Create
     \<lparr>ReadFile = (\<lambda>fn. ''onnx:'' @ fn), Session = (\<lambda>buf. Some (Map.empty :: string \<rightharpoonup> string)),
      GetModelMetadata = (\<lambda>s. s), READ_META_DATA_STR = READ_META_DATA_STR_spec\<rparr>
     (sample_config ''enc.bin'' [])
   = (Inl (Exit (- 1)),
      [ReadFileCall ''enc.bin'', SessionCtor ''onnx:enc.bin'',
       LOGE unsupported_model_type_fmt [[]]])"
proof -
  let ?sv = "\<lparr>ReadFile = (\<lambda>fn. ''onnx:'' @ fn),
              Session = (\<lambda>buf. Some (Map.empty :: string \<rightharpoonup> string)),
              GetModelMetadata = (\<lambda>s. s), READ_META_DATA_STR = READ_META_DATA_STR_spec\<rparr>"
  have a1: "READ_META_DATA_STR ?sv = READ_META_DATA_STR_spec" by simp
  have a2: "model_filename (sample_config ''enc.bin'' []) = Some ''enc.bin''"
    by (simp add: model_filename_def sample_config_def)
  have a3: "Session ?sv (ReadFile ?sv ''enc.bin'') = Some Map.empty" by simp
  have a4: "GetModelMetadata ?sv Map.empty ''model_type'' = None" by simp
  from absent_model_type_is_unknown [OF a1 a2 a3 a4] show ?thesis by simp
qed

section \<open>Classification depends on the string alone\<close>

text \<open>
  C7. The family a run ends in is a function of the string read from the metadata and of
  nothing else: two runs that read the same string, whatever their configurations and
  collaborators, end in the same family, the one \<open>classify\<close> gives. Deciding the family
  adds no event to the run; the only event after the read is the log line of the
  unsupported branch.
\<close>

theorem classification_pure:
  assumes "read_model_type sv1 c1 = (Inr s, evs1)"
    and "read_model_type sv2 c2 = (Inr s, evs2)"
  shows "family_of (fst (Create sv1 c1)) = classify s
         \<and> family_of (fst (Create sv2 c2)) = family_of (fst (Create sv1 c1))
         \<and> snd (Create sv1 c1) =
             evs1 @ (if classify s = Unknown then [LOGE unsupported_model_type_fmt [s]] else [])
         \<and> snd (Create sv2 c2) =
             evs2 @ (if classify s = Unknown then [LOGE unsupported_model_type_fmt [s]] else [])"
  using Create_dispatch [OF assms(1)] Create_dispatch [OF assms(2)]
  by (cases "classify s") simp_all

theorem classification_pure_witness:
  "family_of (fst (Create (sample_services ''conformer'') (sample_config ''enc.bin'' [])))
     = Transducer
   \<and> family_of (fst (Create (sample_services ''conformer'') (sample_config ''b.onnx'' ''m.onnx'')))
     = Transducer
   \<and> snd (Create (sample_services ''conformer'') (sample_config ''enc.bin'' []))
     = [ReadFileCall ''enc.bin'', SessionCtor ''onnx:enc.bin'']"
proof -
  have rm1: "read_model_type (sample_services ''conformer'') (sample_config ''enc.bin'' [])
      = (Inr ''conformer'', [ReadFileCall ''enc.bin'', SessionCtor (''onnx:'' @ ''enc.bin'')])"
    by (rule sample_read_model_type) simp
  have rm2: "read_model_type (sample_services ''conformer'') (sample_config ''b.onnx'' ''m.onnx'')
      = (Inr ''conformer'', [ReadFileCall ''b.onnx'', SessionCtor (''onnx:'' @ ''b.onnx'')])"
    by (rule sample_read_model_type) simp
  have c: "classify ''conformer'' = Transducer"
    by (simp add: classify_def)
  from classification_pure [OF rm1 rm2] c show ?thesis by simp
qed

section \<open>What a return of the factory can be\<close>

text \<open>
  C10. If \<open>Create\<close> returns, the pointer it returns is not null and holds a recognizer
  built by one of the two constructors, for a metadata string of that family; it never
  returns for a string that classifies as Unknown. Every run that stops before the
  dispatch, and every run whose string is Unknown, ends the process instead of returning.
\<close>

theorem Create_returns_concrete:
  "(\<forall>p. fst (Create sv config) = Inr p \<longrightarrow>
        p \<noteq> None
        \<and> (p = Some (OfflineRecognizerTransducerImpl config)
            \<or> p = Some (OfflineRecognizerParaformerImpl config))
        \<and> family_of (Inr p) \<noteq> Unknown
        \<and> (\<exists>s evs. read_model_type sv config = (Inr s, evs) \<and> classify s = family_of (Inr p)))
   \<and> (\<forall>e evs. read_model_type sv config = (Inl e, evs) \<longrightarrow> fst (Create sv config) = Inl e)
   \<and> (\<forall>s evs. read_model_type sv config = (Inr s, evs) \<and> classify s = Unknown \<longrightarrow>
        fst (Create sv config) = Inl (Exit (- 1)))"
proof -
  obtain r evs where rm: "read_model_type sv config = (r, evs)"
    by (cases "read_model_type sv config")
  show ?thesis
  proof (cases r)
    case (Inl e)
    then show ?thesis using Create_stopped [of sv config e evs] rm by simp
  next
    case (Inr s)
    then show ?thesis
      using Create_dispatch [of sv config s evs] rm
      by (cases "classify s") simp_all
  qed
qed

theorem Create_returns_concrete_witness:
  "fst (Create (sample_services ''paraformer'') (sample_config [] ''model.bin''))
     = Inr (Some (OfflineRecognizerParaformerImpl (sample_config [] ''model.bin'')))
   \<and> family_of (fst (Create (sample_services ''paraformer'') (sample_config [] ''model.bin'')))
     = SinglePassNonAutoregressive
   \<and> fst (Create (sample_services ''whisper'') (sample_config [] ''model.bin''))
     = Inl (Exit (- 1))
   \<and> fst (Create (sample_services ''paraformer'') (sample_config [] []))
     = Inl (Exit (- 1))"
proof -
  have rm1: "read_model_type (sample_services ''paraformer'') (sample_config [] ''model.bin'')
      = (Inr ''paraformer'', [ReadFileCall ''model.bin'', SessionCtor ''onnx:model.bin''])"
    by (simp add: read_model_type_def model_filename_def sample_services_def sample_config_def)
  have rm2: "read_model_type (sample_services ''whisper'') (sample_config [] ''model.bin'')
      = (Inr ''whisper'', [ReadFileCall ''model.bin'', SessionCtor ''onnx:model.bin''])"
    by (simp add: read_model_type_def model_filename_def sample_services_def sample_config_def)
  have rm3: "read_model_type (sample_services ''paraformer'') (sample_config [] [])
      = (Inl (Exit (- 1)), [LOGE ''Please provide a model'' []])"
    by (simp add: read_model_type_def model_filename_def sample_config_def)
  have c1: "classify ''paraformer'' = SinglePassNonAutoregressive"
    and c2: "classify ''whisper'' = Unknown"
    by (simp_all add: classify_def)
  have r1: "fst (Create (sample_services ''paraformer'') (sample_config [] ''model.bin''))
      = Inr (Some (OfflineRecognizerParaformerImpl (sample_config [] ''model.bin'')))"
    using Create_dispatch [OF rm1] c1 by simp
  from Create_returns_concrete
    [of "sample_services ''paraformer''" "sample_config [] ''model.bin''"] r1 rm1 c1
  have w1: "family_of (fst (Create (sample_services ''paraformer'') (sample_config [] ''model.bin'')))
      = SinglePassNonAutoregressive"
    by auto
  from Create_returns_concrete
    [of "sample_services ''whisper''" "sample_config [] ''model.bin''"] rm2 c2
  have w2: "fst (Create (sample_services ''whisper'') (sample_config [] ''model.bin''))
      = Inl (Exit (- 1))"
    by blast
  from Create_returns_concrete
    [of "sample_services ''paraformer''" "sample_config [] []"] rm3
  have w3: "fst (Create (sample_services ''paraformer'') (sample_config [] []))
      = Inl (Exit (- 1))"
    by blast
  from r1 w1 w2 w3 show ?thesis by simp
qed

section \<open>Batched decoding\<close>

lemma write_results_frame:
  "p \<notin> set ps \<Longrightarrow> write_results res i ps h p = h p"
  by (induction ps arbitrary: i h) auto




lemma DecodeStreams_Some:
  "DecodeStreams decode ss n h = Some h' \<longleftrightarrow>
     n \<le> int (length ss)
     \<and> h' = write_results (decode (map (\<lambda>p. features (h p)) (take (nat n) ss))) 0
              (take (nat n) ss) h"
  by (auto simp: DecodeStreams_def Let_def)




text \<open>
  C9. \<open>DecodeStreams\<close> works on the first \<open>n\<close> entries of the buffer only. What it returns
  does not depend on the entries beyond \<open>n\<close>: any other tail gives the same store. The
  streams it writes are those the first \<open>n\<close> entries point to: every other stream is
  left as it was, so each entry beyond \<open>n\<close> that is not also one of the first \<open>n\<close> still
  refers to an unchanged stream.
\<close>

theorem DecodeStreams_frame:
  assumes "DecodeStreams decode ss n h = Some h'"
  shows "(\<forall>tl. DecodeStreams decode (take (nat n) ss @ tl) n h = Some h')
         \<and> (\<forall>p. p \<notin> set (take (nat n) ss) \<longrightarrow> h' p = h p)
         \<and> (\<forall>j. nat n \<le> j \<and> j < length ss \<and> ss ! j \<notin> set (take (nat n) ss) \<longrightarrow>
                h' (ss ! j) = h (ss ! j))
         \<and> (distinct ss \<longrightarrow> (\<forall>j. nat n \<le> j \<and> j < length ss \<longrightarrow> h' (ss ! j) = h (ss ! j)))"
proof -
  let ?batch = "take (nat n) ss"
  from assms have len: "n \<le> int (length ss)"
    and h': "h' = write_results (decode (map (\<lambda>p. features (h p)) ?batch)) 0 ?batch h"
    by (simp_all add: DecodeStreams_Some)
  from len have bl: "length ?batch = nat n" by simp
  have tails: "DecodeStreams decode (?batch @ tl) n h = Some h'" for tl
  proof -
    have a: "n \<le> int (length (?batch @ tl))" using bl by simp
    have b: "take (nat n) (?batch @ tl) = ?batch" using bl by simp
    show ?thesis unfolding DecodeStreams_Some b by (intro conjI a h')
  qed
  have frame: "h' p = h p" if "p \<notin> set ?batch" for p
    using that by (simp add: h' write_results_frame)
  have beyond: "ss ! j \<notin> set ?batch" if "distinct ss" "nat n \<le> j" "j < length ss" for j
  proof
    assume "ss ! j \<in> set ?batch"
    then obtain k where k: "k < length ?batch" "?batch ! k = ss ! j"
      by (auto simp: in_set_conv_nth)
    then have "k < nat n" "k < length ss" "ss ! k = ss ! j" using bl len by simp_all
    with that have "k = j" by (simp add: nth_eq_iff_index_eq)
    with \<open>k < nat n\<close> \<open>nat n \<le> j\<close> show False by simp
  qed
  from tails frame beyond show ?thesis by blast
qed

theorem DecodeStreams_frame_witness:
  "the (DecodeStreams (\<lambda>fs i. length (fs ! i)) [3, 5, 8] 2
       (\<lambda>a. \<lparr>features = replicate a CHR ''x'', result = None\<rparr>)) 8
     = \<lparr>features = replicate 8 CHR ''x'', result = None\<rparr>
   \<and> DecodeStreams (\<lambda>fs i. length (fs ! i)) [3, 5, 9, 9] 2
       (\<lambda>a. \<lparr>features = replicate a CHR ''x'', result = None\<rparr>)
     = DecodeStreams (\<lambda>fs i. length (fs ! i)) [3, 5, 8] 2
       (\<lambda>a. \<lparr>features = replicate a CHR ''x'', result = None\<rparr>)"
proof -
  let ?h = "\<lambda>a::nat. \<lparr>features = replicate a CHR ''x'', result = (None :: nat option)\<rparr>"
  let ?d = "\<lambda>(fs :: string list) i. length (fs ! i)"
  obtain h' where ret: "DecodeStreams ?d [3, 5, 8] 2 ?h = Some h'"
    by (simp add: DecodeStreams_def)
  have tk: "take (nat 2) [3, 5, 8 :: nat] = [3, 5]"
    by (simp add: numeral_2_eq_2)
  from DecodeStreams_frame [OF ret] tk
  have "DecodeStreams ?d ([3, 5] @ [9, 9]) 2 ?h = Some h'" and "h' 8 = ?h 8"
    by simp_all
  with ret show ?thesis by simp
qed

end
